theory Spec2Isabelle
  imports Main "HOL-Library.Sublist"
begin

section \<open>JavaScript strings\<close>

text \<open>
  Strings are sequences of code units. Node decodes header values as Latin-1, so every
  code unit of a header value is below 256 and \<^typ>\<open>char\<close> holds it; on that range
  \<open>String.prototype.toLowerCase\<close> works unit by unit: \<open>A\<close>..\<open>Z\<close> and the
  accented capitals \<open>0xC0\<close>..\<open>0xDE\<close> (without the multiplication sign \<open>0xD7\<close>)
  move up by 32, every other unit stays. The partner domain, read from the database,
  is taken in the same range.
\<close>

definition toLowerCase_char :: "char \<Rightarrow> char" where
  "toLowerCase_char c =
     (let n = (of_char c :: nat) in
      if (65 \<le> n \<and> n \<le> 90) \<or> (192 \<le> n \<and> n \<le> 222 \<and> n \<noteq> 215)
      then char_of (n + 32) else c)"

definition toLowerCase :: "string \<Rightarrow> string" where
  "toLowerCase s = map toLowerCase_char s"

text \<open>\<open>s.startsWith(t)\<close> and \<open>s.includes(t)\<close>, receiver first.\<close>

definition startsWith :: "string \<Rightarrow> string \<Rightarrow> bool" where
  "startsWith s t = prefix t s"

definition includes_js :: "string \<Rightarrow> string \<Rightarrow> bool" where
  "includes_js s t = sublist t s"

text \<open>
  \<open>s.trim()\<close>: the white space of ECMAScript on the Latin-1 range is tab, line feed,
  vertical tab, form feed, carriage return, space and the no-break space \<open>0xA0\<close>.
\<close>

definition isWhiteSpace :: "char \<Rightarrow> bool" where
  "isWhiteSpace c =
     (let n = (of_char c :: nat) in (9 \<le> n \<and> n \<le> 13) \<or> n = 32 \<or> n = 160)"

definition trim :: "string \<Rightarrow> string" where
  "trim s = rev (dropWhile isWhiteSpace (rev (dropWhile isWhiteSpace s)))"

text \<open>\<open>s.split(c)\<close> for a separator of one code unit; the result is never empty.\<close>

fun split_js :: "char \<Rightarrow> string \<Rightarrow> string list" where
  "split_js sep [] = [[]]"
| "split_js sep (x # xs) =
     (if x = sep then [] # split_js sep xs
      else (case split_js sep xs of
              [] \<Rightarrow> [[x]]
            | w # ws \<Rightarrow> (x # w) # ws))"

section \<open>The regular expressions of \<open>normalize\<close>\<close>

text \<open>
  The three expressions of \<open>normalize\<close> are sequences of literal code units, one of
  them optional (\<open>s?\<close>), anchored at the start (\<open>^\<close>) or at the end (\<open>$\<close>) of the
  input. \<open>matches p s\<close> lists the lengths of the matches of \<open>p\<close> that start at the head
  of \<open>s\<close>, in the order in which a backtracking matcher tries them (an optional unit
  is taken first, then skipped).
\<close>

datatype atom = Lit char | Opt char

fun matches :: "atom list \<Rightarrow> string \<Rightarrow> nat list" where
  "matches [] s = [0]"
| "matches (Lit c # p) s =
     (case s of [] \<Rightarrow> [] | x # xs \<Rightarrow> if x = c then map Suc (matches p xs) else [])"
| "matches (Opt c # p) s =
     (case s of [] \<Rightarrow> [] | x # xs \<Rightarrow> if x = c then map Suc (matches p xs) else [])
     @ matches p s"

text \<open>\<open>s.replace(/^p/, '')\<close>: the match, if any, starts at index 0 and is cut off.\<close>

definition replace_at_start :: "atom list \<Rightarrow> string \<Rightarrow> string" where
  "replace_at_start p s = (case matches p s of [] \<Rightarrow> s | n # _ \<Rightarrow> drop n s)"

text \<open>
  \<open>s.replace(/p$/, '')\<close>: the start index moves right until a match reaches the end of
  the input; that match is cut off. Without the \<open>m\<close> flag \<open>$\<close> is the end of input only.
\<close>

fun replace_at_end :: "atom list \<Rightarrow> string \<Rightarrow> string" where
  "replace_at_end p [] = []"
| "replace_at_end p (x # xs) =
     (if length (x # xs) \<in> set (matches p (x # xs)) then []
      else x # replace_at_end p xs)"

definition re_scheme :: "atom list" where
  "re_scheme = [Lit CHR ''h'', Lit CHR ''t'', Lit CHR ''t'', Lit CHR ''p'', Opt CHR ''s'',
                Lit CHR '':'', Lit CHR ''/'', Lit CHR ''/'']"

definition re_www :: "atom list" where
  "re_www = [Lit CHR ''w'', Lit CHR ''w'', Lit CHR ''w'', Lit CHR ''.'']"

definition re_slash :: "atom list" where
  "re_slash = [Lit CHR ''/'']"

section \<open>ReferrerPolicy\<close>

text \<open>
  \<^verbatim>\<open>const normalize = str => str.replace(/^https?:\/\//, '').replace(/^www\./, '')
                                .replace(/\/$/, '').toLowerCase();\<close>
\<close>

definition normalize_js :: "string \<Rightarrow> string" where
  "normalize_js str =
     toLowerCase (replace_at_end re_slash (replace_at_start re_www (replace_at_start re_scheme str)))"

text \<open>
  \<^verbatim>\<open>const isAllowed = normalizedRef === normalizedPartner ||
                     normalizedRef.startsWith(normalizedPartner + '/') ||
                     normalizedRef.includes(normalizedPartner);\<close>
\<close>

definition isAllowed :: "string \<Rightarrow> string \<Rightarrow> bool" where
  "isAllowed partnerDomain referrer =
     (let normalizedPartner = normalize_js partnerDomain;
          normalizedRef = normalize_js referrer
      in normalizedRef = normalizedPartner \<or>
         startsWith normalizedRef (normalizedPartner @ ''/'') \<or>
         includes_js normalizedRef normalizedPartner)"

subsection \<open>The normalization in the words of the specification\<close>

definition strip_protocol :: "string \<Rightarrow> string" where
  "strip_protocol s =
     (if prefix ''https://'' s then drop 8 s
      else if prefix ''http://'' s then drop 7 s else s)"

definition strip_www :: "string \<Rightarrow> string" where
  "strip_www s = (if prefix ''www.'' s then drop 4 s else s)"

definition strip_trailing_slash :: "string \<Rightarrow> string" where
  "strip_trailing_slash s = (if s \<noteq> [] \<and> last s = CHR ''/'' then butlast s else s)"

definition normalize_spec :: "string \<Rightarrow> string" where
  "normalize_spec s = toLowerCase (strip_trailing_slash (strip_www (strip_protocol s)))"

section \<open>JavaScript values\<close>

text \<open>
  A header or a property that may be missing is a \<^typ>\<open>string option\<close>, \<open>None\<close> for
  \<open>undefined\<close>. A string is truthy when it is not empty; \<open>a || b\<close> is \<open>a\<close> when \<open>a\<close>
  is truthy and \<open>b\<close> otherwise.
\<close>

definition truthy :: "string option \<Rightarrow> bool" where
  "truthy v = (case v of None \<Rightarrow> False | Some s \<Rightarrow> s \<noteq> [])"

definition js_or :: "string option \<Rightarrow> string option \<Rightarrow> string option" where
  "js_or a b = (if truthy a then a else b)"

definition or_default :: "string option \<Rightarrow> string \<Rightarrow> string" where
  "or_default a d = (case a of None \<Rightarrow> d | Some s \<Rightarrow> if s \<noteq> [] then s else d)"

text \<open>
  The value \<open>response.json()\<close> parses. Numbers are kept as integers: only whether a
  number is zero is ever looked at. An object is the list of its members, each name
  once, as the parser leaves them; a member read is \<open>map_of\<close>.
\<close>

datatype json =
    JNull
  | JBool bool
  | JNum int
  | JStr string
  | JArr "json list"
  | JObj "(string \<times> json) list"

fun json_truthy :: "json \<Rightarrow> bool" where
  "json_truthy JNull = False"
| "json_truthy (JBool b) = b"
| "json_truthy (JNum n) = (n \<noteq> 0)"
| "json_truthy (JStr s) = (s \<noteq> [])"
| "json_truthy (JArr _) = True"
| "json_truthy (JObj _) = True"

datatype js_error = AbortError | TypeError | SyntaxError | NetworkError

text \<open>
  \<open>data.k\<close>: reading a property of \<open>null\<close> throws a TypeError; a primitive or an array
  has none of the properties read here; \<open>Inr None\<close> is \<open>undefined\<close>.
\<close>

fun get_prop :: "json \<Rightarrow> string \<Rightarrow> js_error + json option" where
  "get_prop JNull k = Inl TypeError"
| "get_prop (JObj members) k = Inr (map_of members k)"
| "get_prop _ k = Inr None"

text \<open>
  Whether the conversion of a value to a string, as a template literal does it, throws
  a TypeError. Among parsed JSON values it does so for an object that has a member
  named \<open>toString\<close> (the member, never callable, hides \<open>Object.prototype.toString\<close>,
  and \<open>valueOf\<close> gives no primitive), and for an array one of whose elements does:
  \<open>Array.prototype.toString\<close> joins the converted elements. The limits of an engine,
  such as the depth of its stack, are outside the model.
\<close>

fun toString_throws :: "json \<Rightarrow> bool" where
  "toString_throws (JObj members) = (''toString'' \<in> set (map fst members))"
| "toString_throws (JArr xs) = list_ex toString_throws xs"
| "toString_throws _ = False"

text \<open>\<open>v || 'Unknown'\<close> for a property that was read.\<close>

definition or_unknown :: "json option \<Rightarrow> json" where
  "or_unknown v =
     (case v of None \<Rightarrow> JStr ''Unknown''
      | Some x \<Rightarrow> if json_truthy x then x else JStr ''Unknown'')"

section \<open>Identity extraction: \<open>getRealIP\<close>\<close>

record request =
  req_code :: string
  req_headers :: "string \<rightharpoonup> string"
  req_ip :: "string option"
  req_remoteAddress :: "string option"

definition getRealIP :: "request \<Rightarrow> string" where
  "getRealIP req =
     (let forwarded = req_headers req ''x-forwarded-for'' in
      if truthy forwarded then
        (let ips = map trim (split_js CHR '','' (the forwarded)) in hd ips)
      else
        (let realIP = req_headers req ''x-real-ip'' in
         if truthy realIP then the realIP
         else
           (let cfConnectingIP = req_headers req ''cf-connecting-ip'' in
            if truthy cfConnectingIP then the cfConnectingIP
            else or_default (js_or (req_ip req) (req_remoteAddress req)) ''Unknown'')))"

section \<open>GeoResolver: \<open>getLocationFromIP\<close>\<close>

record location =
  country :: json
  city :: json
  region :: json

definition local_location :: location where
  "local_location = \<lparr>country = JStr ''Local'', city = JStr ''Local'', region = JStr ''Local''\<rparr>"

definition unknown_location :: location where
  "unknown_location =
     \<lparr>country = JStr ''Unknown'', city = JStr ''Unknown'', region = JStr ''Unknown''\<rparr>"

text \<open>The condition of the first \<open>if\<close> of \<open>getLocationFromIP\<close>, clause by clause.\<close>

definition is_local_ip :: "string \<Rightarrow> bool" where
  "is_local_ip addr =
     (addr = [] \<or> addr = ''127.0.0.1'' \<or> addr = ''::1'' \<or> addr = ''Unknown'' \<or>
      startsWith addr ''192.168'' \<or> startsWith addr ''10.'' \<or>
      startsWith addr ''172.16'' \<or> startsWith addr ''172.31'' \<or>
      includes_js addr ''::ffff:127.0.0.1'' \<or> includes_js addr ''::1'')"

text \<open>\<open>s.replace(pat, '')\<close> with a string pattern: the first occurrence is removed.\<close>

fun remove_first :: "string \<Rightarrow> string \<Rightarrow> string" where
  "remove_first pat [] = []"
| "remove_first pat (x # xs) =
     (if prefix pat (x # xs) then drop (length pat) (x # xs)
      else x # remove_first pat xs)"

definition lookup_url :: "string \<Rightarrow> string" where
  "lookup_url addr =
     ''http://ip-api.com/json/'' @ remove_first ''::ffff:'' addr @
     ''?fields=status,message,country,city,regionName,lat,lon,timezone''"

text \<open>
  What the network does with one request, times in milliseconds from the call. The
  promise of \<open>fetch\<close> is left pending for ever, is rejected after \<open>t\<close>, or is fulfilled
  with the response after \<open>t\<close>; the body of a response never ends, fails after \<open>d\<close>
  more, or is complete after \<open>d\<close> more and then is JSON or is not.
\<close>

datatype body_outcome = BodyNever | BodyFailed nat | BodyText nat "json option"

datatype fetch_outcome = HeadersNever | FetchFailed nat | Headers nat body_outcome

text \<open>
  \<open>setTimeout(() => controller.abort(), 5000)\<close>: the timer fires when the promise of
  \<open>fetch\<close> has not settled before 5000 ms. \<open>clearTimeout\<close> runs as soon as it is
  fulfilled, before \<open>response.json()\<close>, so nothing aborts the read of the body.
\<close>

definition timed_out :: "fetch_outcome \<Rightarrow> bool" where
  "timed_out r =
     (case r of HeadersNever \<Rightarrow> True | FetchFailed t \<Rightarrow> 5000 \<le> t | Headers t b \<Rightarrow> 5000 \<le> t)"

text \<open>
  The \<open>try\<close> block from \<open>if (data && data.status === 'success')\<close> on: \<open>Inl\<close> is what
  it throws, \<open>Inr (Some l)\<close> what it returns, \<open>Inr None\<close> that it falls through. Both
  branches build a log line first: the success branch converts \<open>data.city\<close>, then
  \<open>data.country\<close>, to strings; the other one converts \<open>data.message\<close> when it is
  truthy.
\<close>

definition on_data :: "json \<Rightarrow> js_error + location option" where
  "on_data data =
     (if json_truthy data \<and> get_prop data ''status'' = Inr (Some (JStr ''success''))
      then
        (case get_prop data ''city'' of Inl e \<Rightarrow> Inl e | Inr t \<Rightarrow>
        (case get_prop data ''country'' of Inl e \<Rightarrow> Inl e | Inr c \<Rightarrow>
           if (case t of None \<Rightarrow> False | Some v \<Rightarrow> toString_throws v) \<or>
              (case c of None \<Rightarrow> False | Some v \<Rightarrow> toString_throws v)
           then Inl TypeError
           else
             (case get_prop data ''regionName'' of Inl e \<Rightarrow> Inl e | Inr g \<Rightarrow>
                Inr (Some \<lparr>country = or_unknown c, city = or_unknown t,
                           region = or_unknown g\<rparr>))))
      else
        (case get_prop data ''message'' of
           Inl e \<Rightarrow> Inl e
         | Inr m \<Rightarrow>
             if (case m of None \<Rightarrow> False | Some v \<Rightarrow> json_truthy v \<and> toString_throws v)
             then Inl TypeError else Inr None))"

text \<open>
  The \<open>try\<close> block after the local check, with the instant at which it is left;
  \<open>None\<close> when it never is (\<open>await response.json()\<close> stays pending).
\<close>

definition lookup_try :: "fetch_outcome \<Rightarrow> ((js_error + location option) \<times> nat) option" where
  "lookup_try r =
     (if timed_out r then Some (Inl AbortError, 5000)
      else
        (case r of
           HeadersNever \<Rightarrow> Some (Inl AbortError, 5000)
         | FetchFailed t \<Rightarrow> Some (Inl NetworkError, t)
         | Headers t b \<Rightarrow>
             (case b of
                BodyNever \<Rightarrow> None
              | BodyFailed d \<Rightarrow> Some (Inl NetworkError, t + d)
              | BodyText d None \<Rightarrow> Some (Inl SyntaxError, t + d)
              | BodyText d (Some data) \<Rightarrow> Some (on_data data, t + d))))"

text \<open>
  The result of the \<open>async\<close> function is a promise: \<open>None\<close> while it stays pending for
  ever, else how it settles (\<open>Inr\<close> fulfilled, \<open>Inl\<close> rejected) and when. With it comes
  the list of the URLs fetched. The \<open>catch\<close> block only logs, and every path that
  does not return inside \<open>try\<close> ends at the last \<open>return\<close>.
\<close>

definition getLocationFromIP ::
  "(string \<Rightarrow> fetch_outcome) \<Rightarrow> string \<Rightarrow>
     ((js_error + location) \<times> nat) option \<times> string list" where
  "getLocationFromIP net addr =
     (if is_local_ip addr then (Some (Inr local_location, 0), [])
      else
        (case lookup_try (net (lookup_url addr)) of
           None \<Rightarrow> (None, [lookup_url addr])
         | Some (Inr (Some l), t) \<Rightarrow> (Some (Inr l, t), [lookup_url addr])
         | Some (Inr None, t) \<Rightarrow> (Some (Inr unknown_location, t), [lookup_url addr])
         | Some (Inl e, t) \<Rightarrow> (Some (Inr unknown_location, t), [lookup_url addr])))"

section \<open>UserAgentClassifier: \<open>parseUserAgent\<close>\<close>

record ua_info =
  device :: string
  browser :: string
  os :: string

definition parseUserAgent :: "string option \<Rightarrow> ua_info" where
  "parseUserAgent userAgent =
     (let ua = toLowerCase (or_default userAgent []) in
      \<lparr>device =
         (if includes_js ua ''mobile'' then ''Mobile''
          else if includes_js ua ''tablet'' then ''Tablet''
          else ''Desktop''),
       browser =
         (if includes_js ua ''chrome'' \<and> \<not> includes_js ua ''edg'' then ''Chrome''
          else if includes_js ua ''safari'' \<and> \<not> includes_js ua ''chrome'' then ''Safari''
          else if includes_js ua ''firefox'' then ''Firefox''
          else if includes_js ua ''edg'' then ''Edge''
          else if includes_js ua ''opera'' \<or> includes_js ua ''opr'' then ''Opera''
          else ''Unknown''),
       os =
         (if includes_js ua ''windows'' then ''Windows''
          else if includes_js ua ''mac'' then ''macOS''
          else if includes_js ua ''linux'' then ''Linux''
          else if includes_js ua ''android'' then ''Android''
          else if includes_js ua ''iphone'' \<or> includes_js ua ''ipad'' then ''iOS''
          else ''Unknown'')\<rparr>)"

section \<open>RedirectPipeline: \<open>GET /:code\<close>\<close>

text \<open>
  A row of \<open>urls\<close> as the handler's query returns it, with the partner's domain joined
  in (\<open>None\<close> for SQL \<open>NULL\<close>); instants are milliseconds.
\<close>

record url_row =
  url :: string
  clicks :: int
  partner_domain :: "string option"
  expires_at :: "int option"

text \<open>The parameters of the two \<open>INSERT\<close> statements, in their order.\<close>

record click_event =
  click_code :: string
  click_ip_address :: string
  click_country :: json
  click_city :: json
  click_region :: json
  click_user_agent :: string
  click_device :: string
  click_browser :: string
  click_os :: string
  click_referrer :: string

record bypass_event =
  bypass_code :: string
  bypass_referrer :: string
  bypass_ip_address :: string
  bypass_user_agent :: string

record db =
  urls :: "string \<rightharpoonup> url_row"
  click_rows :: "click_event list"
  bypass_logs :: "bypass_event list"

text \<open>
  What is outside the handler: the clock, the network, and whether each statement sent
  to the pool succeeds (\<open>pool.query\<close> rejects otherwise).
\<close>

record env =
  env_now :: int
  env_net :: "string \<Rightarrow> fetch_outcome"
  select_ok :: bool
  bypass_insert_ok :: bool
  click_insert_ok :: bool
  update_ok :: bool

text \<open>Every statement sent to the pool and every URL fetched, in order.\<close>

datatype effect =
    Select string
  | InsertBypass bypass_event
  | InsertClick click_event
  | UpdateClicks string
  | Fetch string

text \<open>
  The bodies sent. The pages for 404, 410 and 403 are template literals without a
  hole, given here as the text that is sent, in UTF-8 (the only units outside ASCII
  are those of the emoji in the heading); every line of a literal follows a line feed.
  The page for 200 has one hole, filled with \<open>JSON.stringify(targetUrl)\<close>; it is kept
  as the template together with the target.
\<close>

definition template :: "string list \<Rightarrow> string" where
  "template ls = concat (map ((#) CHR 0x0A) ls)"

definition not_found_page :: string where
  \<open>not_found_page = template
     [''        <!DOCTYPE html>'',
      ''        <html>'',
      ''        <head>'',
      ''          <title>404 - Link Not Found</title>'',
      ''          <meta name="viewport" content="width=device-width,initial-scale=1" />'',
      ''          <style>'',
      ''            body {'',
      ''              font-family: -apple-system, BlinkMacSystemFont, 'Segoe UI', Roboto, sans-serif;'',
      ''              display:flex;'',
      ''              align-items:center;'',
      ''              justify-content:center;'',
      ''              min-height:100vh;'',
      ''              margin:0;'',
      ''              background: linear-gradient(135deg, #667eea 0%, #764ba2 100%);'',
      ''            }'',
      ''            .box {'',
      ''              background: rgba(255,255,255,0.1);'',
      ''              backdrop-filter: blur(20px);'',
      ''              padding:40px;'',
      ''              border-radius:20px;'',
      ''              box-shadow:0 20px 60px rgba(0,0,0,0.3);'',
      ''              text-align:center;'',
      ''              color: white;'',
      ''              border: 1px solid rgba(255,255,255,0.2);'',
      ''            }'',
      ''            h1 { margin:0 0 12px 0; font-size:2rem; }'',
      ''            p { margin:0; opacity:0.9; }'',
      ''          </style>'',
      ''        </head>'',
      ''        <body>'',
      ''          <div class="box">'',
      ''            <h1>'' @ [CHR 0xF0, CHR 0x9F, CHR 0x94, CHR 0x8D] @ '' 404 - Link Not Found</h1>'',
      ''            <p>This short link doesn't exist or has been deleted.</p>'',
      ''          </div>'',
      ''        </body>'',
      ''        </html>'',
      ''      '']\<close>

definition expired_page :: string where
  \<open>expired_page = template
     [''        <!DOCTYPE html>'',
      ''        <html>'',
      ''        <head>'',
      ''          <title>Link Expired</title>'',
      ''          <meta name="viewport" content="width=device-width,initial-scale=1" />'',
      ''          <style>'',
      ''            body {'',
      ''              font-family: -apple-system, BlinkMacSystemFont, 'Segoe UI', Roboto, sans-serif;'',
      ''              display:flex;'',
      ''              align-items:center;'',
      ''              justify-content:center;'',
      ''              min-height:100vh;'',
      ''              margin:0;'',
      ''              background: #0a0a0a;'',
      ''              color:white;'',
      ''            }'',
      ''            .box {'',
      ''              background: rgba(255,255,255,0.05);'',
      ''              backdrop-filter: blur(20px);'',
      ''              padding:40px;'',
      ''              border-radius:20px;'',
      ''              text-align:center;'',
      ''              border: 1px solid rgba(255,255,255,0.1);'',
      ''            }'',
      ''            h1 { margin:0 0 12px 0; }'',
      ''          </style>'',
      ''        </head>'',
      ''        <body>'',
      ''          <div class="box">'',
      ''            <h1>'' @ [CHR 0xF0, CHR 0x9F, CHR 0x94, CHR 0x92] @ '' Link Expired</h1>'',
      ''            <p>This link has expired and can no longer be used.</p>'',
      ''          </div>'',
      ''        </body>'',
      ''        </html>'',
      ''      '']\<close>

definition bypass_page :: string where
  \<open>bypass_page = template
     [''          <!DOCTYPE html>'',
      ''          <html lang="en">'',
      ''          <head>'',
      ''              <meta charset="UTF-8">'',
      ''              <meta name="viewport" content="width=device-width, initial-scale=1.0">'',
      ''              <title>Bypass Detected</title>'',
      ''              <style>'',
      ''                  * { margin:0; padding:0; box-sizing:border-box; }'',
      ''                  body {'',
      ''                      font-family: -apple-system, BlinkMacSystemFont, 'Segoe UI', Roboto, sans-serif;'',
      ''                      background: linear-gradient(135deg, #667eea 0%, #764ba2 100%);'',
      ''                      color: white;'',
      ''                      display: flex;'',
      ''                      justify-content: center;'',
      ''                      align-items: center;'',
      ''                      height: 100vh;'',
      ''                      margin: 0;'',
      ''                      padding: 20px;'',
      ''                  }'',
      ''                  .warning-box {'',
      ''                      max-width: 640px;'',
      ''                      padding: 48px;'',
      ''                      border-radius: 24px;'',
      ''                      background: rgba(255, 255, 255, 0.1);'',
      ''                      backdrop-filter: blur(20px);'',
      ''                      border: 1px solid rgba(255, 255, 255, 0.2);'',
      ''                      text-align: center;'',
      ''                      box-shadow: 0 20px 60px rgba(0,0,0,0.4);'',
      ''                  }'',
      ''                  h1 { '',
      ''                      font-size: 3rem; '',
      ''                      margin: 0 0 1.5rem 0; '',
      ''                  }'',
      ''                  p { '',
      ''                      font-size: 1.2rem; '',
      ''                      opacity: 0.95; '',
      ''                      line-height: 1.7;'',
      ''                      margin: 0 0 2rem 0;'',
      ''                  }'',
      ''                  .credit {'',
      ''                      margin-top: 2.5rem;'',
      ''                      padding-top: 2rem;'',
      ''                      border-top: 1px solid rgba(255, 255, 255, 0.2);'',
      ''                      font-weight: 700;'',
      ''                      font-size: 1rem;'',
      ''                  }'',
      ''                  .credit a {'',
      ''                      color: white;'',
      ''                      text-decoration: none;'',
      ''                      transition: opacity 0.3s;'',
      ''                  }'',
      ''                  .credit a:hover {'',
      ''                      opacity: 0.7;'',
      ''                  }'',
      ''              </style>'',
      ''          </head>'',
      ''          <body>'',
      ''              <div class="warning-box">'',
      ''                  <h1>'' @ [CHR 0xE2, CHR 0x9A, CHR 0xA0, CHR 0xEF, CHR 0xB8, CHR 0x8F] @ '' Bypass Detected</h1>'',
      ''                  <p>'',
      ''                      Access denied. Please don't bypass the link.<br>'',
      ''                      <strong>X</strong><br>'',
      ''                      '',
      ''                  </p>'',
      ''                  <div class="credit">'',
      ''                      Developed by <a href="https://t.me/RSCBots" target="_blank" rel="noopener noreferrer">@RSCBots</a>'',
      ''                  </div>'',
      ''              </div>'',
      ''          </body>'',
      ''          </html>'',
      ''        '']\<close>

datatype page = Static string | RedirectPage string

record outcome =
  out_status :: nat
  out_body :: page
  out_effects :: "effect list"
  out_db :: db

text \<open>\<open>UPDATE urls SET clicks = clicks + 1 WHERE code = $1\<close>\<close>

definition increment_clicks :: "db \<Rightarrow> string \<Rightarrow> db" where
  "increment_clicks st code =
     (case urls st code of
        None \<Rightarrow> st
      | Some r \<Rightarrow> st\<lparr>urls := (urls st)(code \<mapsto> r\<lparr>clicks := clicks r + 1\<rparr>)\<rparr>)"

text \<open>
  The background chain \<open>getLocationFromIP(ip).then(...).catch(...)\<close>; nothing runs
  while the promise is pending. In the \<open>then\<close> callback a failed insert throws past
  the update into the callback's own \<open>catch\<close>; the outer \<open>catch\<close> runs when the
  lookup promise is rejected and inserts only, with the literal \<open>'Unknown'\<close> three times.
\<close>

definition record_click ::
  "env \<Rightarrow> db \<Rightarrow> string \<Rightarrow> string \<Rightarrow> string \<Rightarrow> ua_info \<Rightarrow> string \<Rightarrow> db \<times> effect list" where
  "record_click e st code addr userAgent info referrer =
     (case getLocationFromIP (env_net e) addr of
        (None, fetched) \<Rightarrow> (st, map Fetch fetched)
      | (Some (Inr loc, t), fetched) \<Rightarrow>
          (let ev = \<lparr>click_code = code, click_ip_address = addr,
                     click_country = country loc, click_city = city loc,
                     click_region = region loc, click_user_agent = userAgent,
                     click_device = device info, click_browser = browser info,
                     click_os = os info, click_referrer = referrer\<rparr>
           in
           if click_insert_ok e then
             (if update_ok e
              then (increment_clicks (st\<lparr>click_rows := click_rows st @ [ev]\<rparr>) code,
                    map Fetch fetched @ [InsertClick ev, UpdateClicks code])
              else (st\<lparr>click_rows := click_rows st @ [ev]\<rparr>,
                    map Fetch fetched @ [InsertClick ev, UpdateClicks code]))
           else (st, map Fetch fetched @ [InsertClick ev]))
      | (Some (Inl err, t), fetched) \<Rightarrow>
          (let ev = \<lparr>click_code = code, click_ip_address = addr,
                     click_country = JStr ''Unknown'', click_city = JStr ''Unknown'',
                     click_region = JStr ''Unknown'', click_user_agent = userAgent,
                     click_device = device info, click_browser = browser info,
                     click_os = os info, click_referrer = referrer\<rparr>
           in
           if click_insert_ok e
           then (st\<lparr>click_rows := click_rows st @ [ev]\<rparr>, map Fetch fetched @ [InsertClick ev])
           else (st, map Fetch fetched @ [InsertClick ev])))"

text \<open>\<open>expiresAt && new Date(expiresAt) < new Date()\<close>\<close>

definition expired :: "env \<Rightarrow> url_row \<Rightarrow> bool" where
  "expired e urlData = (case expires_at urlData of None \<Rightarrow> False | Some t \<Rightarrow> t < env_now e)"

text \<open>
  \<^verbatim>\<open>const userAgent = req.headers['user-agent'] || 'Unknown';
const referrer = (req.headers['referer'] || req.headers['referrer'] || 'Direct').toString();\<close>
\<close>

definition userAgent_of :: "request \<Rightarrow> string" where
  "userAgent_of req = or_default (req_headers req ''user-agent'') ''Unknown''"

definition referrer_of :: "request \<Rightarrow> string" where
  "referrer_of req =
     or_default (js_or (req_headers req ''referer'') (req_headers req ''referrer'')) ''Direct''"

text \<open>
  The handler, from the query to the last effect of the background chain. The response
  of an allowed request is sent before that chain settles; the outcome lists what has
  happened once it has, or what has happened at all when the lookup stays pending.
\<close>

definition get_code :: "env \<Rightarrow> db \<Rightarrow> request \<Rightarrow> outcome" where
  "get_code e st req =
     (let code = req_code req in
      if \<not> select_ok e then
        \<lparr>out_status = 500, out_body = Static ''Internal server error'', out_effects = [Select code], out_db = st\<rparr>
      else
        (case urls st code of
           None \<Rightarrow>
             \<lparr>out_status = 404, out_body = Static not_found_page, out_effects = [Select code],
              out_db = st\<rparr>
         | Some urlData \<Rightarrow>
             (let targetUrl = url urlData;
                  partnerDomain = partner_domain urlData
              in
              if expired e urlData then
                \<lparr>out_status = 410, out_body = Static expired_page,
                 out_effects = [Select code], out_db = st\<rparr>
              else
                (let addr = getRealIP req;
                     userAgent = userAgent_of req;
                     referrer = referrer_of req
                 in
                 if truthy partnerDomain \<and>
                    \<not> isAllowed (the partnerDomain) (or_default (Some referrer) [])
                 then
                   (let ev = \<lparr>bypass_code = code, bypass_referrer = referrer,
                              bypass_ip_address = addr, bypass_user_agent = userAgent\<rparr>
                    in
                    \<lparr>out_status = 403, out_body = Static bypass_page,
                     out_effects = [Select code, InsertBypass ev],
                     out_db = (if bypass_insert_ok e
                               then st\<lparr>bypass_logs := bypass_logs st @ [ev]\<rparr> else st)\<rparr>)
                 else
                   (let info = parseUserAgent (Some userAgent) in
                    case record_click e st code addr userAgent info referrer of
                      (st', effs) \<Rightarrow>
                        \<lparr>out_status = 200, out_body = RedirectPage targetUrl,
                         out_effects = Select code # effs, out_db = st'\<rparr>)))))"

section \<open>Example inputs\<close>

text \<open>Concrete user agents, provider replies, rows and requests for the instances below.\<close>

definition chrome_on_windows :: string where
  "chrome_on_windows =
     ''Mozilla/5.0 (Windows NT 10.0; Win64; x64) AppleWebKit/537.36 (KHTML, like Gecko) Chrome/91.0.4472.124 Safari/537.36''"

definition safari_on_iphone :: string where
  "safari_on_iphone =
     ''Mozilla/5.0 (iPhone; CPU iPhone OS 16_0 like Mac OS X) AppleWebKit/605.1.15 (KHTML, like Gecko) Version/16.0 Mobile/15E148 Safari/604.1''"




definition example_env :: env where
  "example_env =
     \<lparr>env_now = 1700000000000, env_net = (\<lambda>u. HeadersNever), select_ok = True,
      bypass_insert_ok = True, click_insert_ok = True, update_ok = True\<rparr>"

definition expired_row :: url_row where
  "expired_row =
     \<lparr>url = ''https://target.example/landing'', clicks = 0,
      partner_domain = Some ''example.com'', expires_at = Some 1600000000000\<rparr>"

definition partner_row :: url_row where
  "partner_row =
     \<lparr>url = ''https://target.example/landing'', clicks = 0,
      partner_domain = Some ''example.com'', expires_at = None\<rparr>"

definition credit_link_row :: url_row where
  "credit_link_row =
     \<lparr>url = ''https://t.me/RSCBots'', clicks = 0,
      partner_domain = Some ''example.com'', expires_at = None\<rparr>"


definition example_db :: "url_row \<Rightarrow> db" where
  "example_db r = \<lparr>urls = [''promo'' \<mapsto> r], click_rows = [], bypass_logs = []\<rparr>"

definition direct_request :: request where
  "direct_request =
     \<lparr>req_code = ''promo'', req_headers = [''user-agent'' \<mapsto> chrome_on_windows],
      req_ip = Some ''203.0.113.7'', req_remoteAddress = Some ''203.0.113.7''\<rparr>"

definition partner_request :: request where
  "partner_request =
     \<lparr>req_code = ''promo'',
      req_headers = [''user-agent'' \<mapsto> chrome_on_windows,
                     ''referer'' \<mapsto> ''https://www.example.com/page''],
      req_ip = Some ''203.0.113.7'', req_remoteAddress = Some ''203.0.113.7''\<rparr>"

section \<open>Properties of the string primitives\<close>

lemma split_not_Nil: "split_js sep s \<noteq> []"
  by (induction s) (auto split: list.splits)

lemma hd_split: "hd (split_js sep s) = takeWhile (\<lambda>c. c \<noteq> sep) s"
  by (induction s) (auto split: list.splits simp: split_not_Nil)

lemma includes_toLowerCase:
  "includes_js s t \<Longrightarrow> includes_js (toLowerCase s) (toLowerCase t)"
  unfolding includes_js_def toLowerCase_def by (rule map_mono_sublist)

lemma replace_www_eq: "replace_at_start re_www s = strip_www s"
  by (auto simp: replace_at_start_def re_www_def strip_www_def split: list.splits)

lemma replace_scheme_eq: "replace_at_start re_scheme s = strip_protocol s"
  by (auto simp: replace_at_start_def re_scheme_def strip_protocol_def split: list.splits)

lemma replace_slash_eq: "replace_at_end re_slash s = strip_trailing_slash s"
  by (induction s) (auto simp: re_slash_def strip_trailing_slash_def split: list.splits)

lemma normalize_eq: "normalize_js s = normalize_spec s"
  by (simp add: normalize_js_def normalize_spec_def replace_www_eq replace_scheme_eq replace_slash_eq)

lemma startsWith_iff: "startsWith s t \<longleftrightarrow> (\<exists>rest. s = t @ rest)"
  by (simp add: startsWith_def prefix_def)

lemma includes_iff: "includes_js s t \<longleftrightarrow> (\<exists>before after. s = before @ t @ after)"
  by (simp add: includes_js_def sublist_def)

lemma isAllowed_includes:
  "isAllowed d r \<longleftrightarrow> includes_js (normalize_js r) (normalize_js d)"
proof -
  have "includes_js s t" if "s = t" for s t :: string
    using that by (simp add: includes_js_def)
  moreover have "includes_js s t" if "startsWith s (t @ ''/'')" for s t :: string
  proof -
    from that obtain rest where "s = [] @ t @ (''/'' @ rest)"
      by (auto simp: startsWith_iff)
    then show ?thesis unfolding includes_iff by blast
  qed
  ultimately show ?thesis
    unfolding isAllowed_def Let_def by blast
qed

section \<open>ReferrerPolicy: the match rule\<close>

text \<open>
  C1. For every partner domain \<open>d\<close> and referrer \<open>r\<close> the policy allows exactly when,
  after both strings are normalized (a leading \<open>http://\<close> or \<open>https://\<close> stripped,
  then a leading \<open>www.\<close>, then one trailing slash, then lower-cased), the referrer
  equals the domain, or starts with the domain followed by a slash, or contains the
  domain somewhere. With domain \<open>example.com\<close> and referrer
  \<open>https://www.example.com/page\<close> it allows. The normalization of the source, three
  regular-expression replacements, is the one in these words (\<open>normalize_eq\<close>).
\<close>

theorem referrer_policy_rule:
  "(isAllowed d r \<longleftrightarrow>
      normalize_spec r = normalize_spec d \<or>
      (\<exists>rest. normalize_spec r = (normalize_spec d @ ''/'') @ rest) \<or>
      (\<exists>before after. normalize_spec r = before @ normalize_spec d @ after))
   \<and> isAllowed ''example.com'' ''https://www.example.com/page''"
proof
  show "isAllowed d r \<longleftrightarrow>
      normalize_spec r = normalize_spec d \<or>
      (\<exists>rest. normalize_spec r = (normalize_spec d @ ''/'') @ rest) \<or>
      (\<exists>before after. normalize_spec r = before @ normalize_spec d @ after)"
    unfolding isAllowed_def Let_def normalize_eq startsWith_iff includes_iff ..
  show "isAllowed ''example.com'' ''https://www.example.com/page''"
    by code_simp
qed

text \<open>
  C9. The three clauses of the match rule decide the same as the last one alone: the
  policy allows if and only if the normalized referrer contains the normalized partner
  domain. Equality and the prefix clause never change the outcome.
\<close>

theorem referrer_policy_is_substring_test:
  "isAllowed d r \<longleftrightarrow> includes_js (normalize_js r) (normalize_js d)"
  by (rule isAllowed_includes)

section \<open>UserAgentClassifier: browser and operating system\<close>

lemma includes_trans: "includes_js s t \<Longrightarrow> includes_js t u \<Longrightarrow> includes_js s u"
  unfolding includes_js_def by (rule sublist_order.order_trans)

lemma or_default_Some_Nil: "or_default (Some s) [] = s"
  by (simp add: or_default_def)

lemma browser_parseUserAgent:
  "browser (parseUserAgent (Some s)) =
     (let ua = toLowerCase s in
      if includes_js ua ''chrome'' \<and> \<not> includes_js ua ''edg'' then ''Chrome''
      else if includes_js ua ''safari'' \<and> \<not> includes_js ua ''chrome'' then ''Safari''
      else if includes_js ua ''firefox'' then ''Firefox''
      else if includes_js ua ''edg'' then ''Edge''
      else if includes_js ua ''opera'' \<or> includes_js ua ''opr'' then ''Opera''
      else ''Unknown'')"
  by (simp add: parseUserAgent_def or_default_Some_Nil Let_def)

lemma os_parseUserAgent:
  "os (parseUserAgent (Some s)) =
     (let ua = toLowerCase s in
      if includes_js ua ''windows'' then ''Windows''
      else if includes_js ua ''mac'' then ''macOS''
      else if includes_js ua ''linux'' then ''Linux''
      else if includes_js ua ''android'' then ''Android''
      else if includes_js ua ''iphone'' \<or> includes_js ua ''ipad'' then ''iOS''
      else ''Unknown'')"
  by (simp add: parseUserAgent_def or_default_Some_Nil Let_def)

lemma lower_Chrome: "toLowerCase ''Chrome'' = ''chrome''"
  by code_simp

lemma lower_like_Mac: "toLowerCase ''like Mac OS X'' = ''like mac os x''"
  by code_simp

lemma mac_in_like_mac: "includes_js ''like mac os x'' ''mac''"
  by code_simp

text \<open>
  C7. For every user-agent string the browser is decided in a fixed order on the
  lower-cased string: Chrome if it contains \<open>chrome\<close> and not \<open>edg\<close>; else Safari if it
  contains \<open>safari\<close> and not \<open>chrome\<close>; else Firefox if it contains \<open>firefox\<close>; else
  Edge if it contains \<open>edg\<close>; else Opera if it contains \<open>opera\<close> or \<open>opr\<close>; else
  Unknown. A string that contains both \<open>Chrome\<close> and \<open>Safari\<close>, and no \<open>edg\<close>, is
  classified as Chrome, not Safari.
\<close>

theorem browser_priority_order:
  "browser (parseUserAgent (Some s)) =
     (let ua = toLowerCase s in
      if includes_js ua ''chrome'' \<and> \<not> includes_js ua ''edg'' then ''Chrome''
      else if includes_js ua ''safari'' \<and> \<not> includes_js ua ''chrome'' then ''Safari''
      else if includes_js ua ''firefox'' then ''Firefox''
      else if includes_js ua ''edg'' then ''Edge''
      else if includes_js ua ''opera'' \<or> includes_js ua ''opr'' then ''Opera''
      else ''Unknown'')
   \<and> (includes_js s ''Chrome'' \<and> includes_js s ''Safari'' \<and> \<not> includes_js (toLowerCase s) ''edg''
        \<longrightarrow> browser (parseUserAgent (Some s)) = ''Chrome'')"
proof (intro conjI impI)
  show "browser (parseUserAgent (Some s)) =
     (let ua = toLowerCase s in
      if includes_js ua ''chrome'' \<and> \<not> includes_js ua ''edg'' then ''Chrome''
      else if includes_js ua ''safari'' \<and> \<not> includes_js ua ''chrome'' then ''Safari''
      else if includes_js ua ''firefox'' then ''Firefox''
      else if includes_js ua ''edg'' then ''Edge''
      else if includes_js ua ''opera'' \<or> includes_js ua ''opr'' then ''Opera''
      else ''Unknown'')"
    by (rule browser_parseUserAgent)
next
  assume h: "includes_js s ''Chrome'' \<and> includes_js s ''Safari'' \<and>
             \<not> includes_js (toLowerCase s) ''edg''"
  then have "includes_js (toLowerCase s) ''chrome''"
    using includes_toLowerCase [of s "''Chrome''"] by (simp add: lower_Chrome)
  with h show "browser (parseUserAgent (Some s)) = ''Chrome''"
    by (simp add: browser_parseUserAgent Let_def)
qed

theorem browser_priority_order_witness:
  "includes_js chrome_on_windows ''Chrome'' \<and> includes_js chrome_on_windows ''Safari'' \<and>
   \<not> includes_js (toLowerCase chrome_on_windows) ''edg'' \<and>
   browser (parseUserAgent (Some chrome_on_windows)) = ''Chrome''"
proof -
  have h: "includes_js chrome_on_windows ''Chrome'' \<and> includes_js chrome_on_windows ''Safari'' \<and>
           \<not> includes_js (toLowerCase chrome_on_windows) ''edg''"
    by code_simp
  with browser_priority_order [of chrome_on_windows] show ?thesis
    by blast
qed

text \<open>
  C10. A user-agent string whose lower-cased form contains \<open>mac\<close> and not \<open>windows\<close>
  has operating system macOS. So iOS is returned exactly for the strings that contain
  \<open>iphone\<close> or \<open>ipad\<close> and none of \<open>windows\<close>, \<open>mac\<close>, \<open>linux\<close>, \<open>android\<close>, and
  a standard iPhone or iPad user agent, which contains \<open>like Mac OS X\<close>, is classified
  as macOS, never as iOS.
\<close>

theorem os_mac_checked_before_ios:
  "(includes_js (toLowerCase s) ''mac'' \<and> \<not> includes_js (toLowerCase s) ''windows''
      \<longrightarrow> os (parseUserAgent (Some s)) = ''macOS'')
   \<and> (os (parseUserAgent (Some s)) = ''iOS'' \<longleftrightarrow>
        (includes_js (toLowerCase s) ''iphone'' \<or> includes_js (toLowerCase s) ''ipad'') \<and>
        \<not> includes_js (toLowerCase s) ''windows'' \<and> \<not> includes_js (toLowerCase s) ''mac'' \<and>
        \<not> includes_js (toLowerCase s) ''linux'' \<and> \<not> includes_js (toLowerCase s) ''android'')
   \<and> (includes_js s ''like Mac OS X'' \<and> \<not> includes_js (toLowerCase s) ''windows''
        \<longrightarrow> os (parseUserAgent (Some s)) = ''macOS'' \<and> os (parseUserAgent (Some s)) \<noteq> ''iOS'')"
proof -
  let ?ua = "toLowerCase s"
  have mac: "os (parseUserAgent (Some s)) = ''macOS''"
    if "includes_js ?ua ''mac''" and "\<not> includes_js ?ua ''windows''"
    using that by (simp add: os_parseUserAgent Let_def)
  have ios: "os (parseUserAgent (Some s)) = ''iOS'' \<longleftrightarrow>
        (includes_js ?ua ''iphone'' \<or> includes_js ?ua ''ipad'') \<and>
        \<not> includes_js ?ua ''windows'' \<and> \<not> includes_js ?ua ''mac'' \<and>
        \<not> includes_js ?ua ''linux'' \<and> \<not> includes_js ?ua ''android''"
    by (simp add: os_parseUserAgent Let_def)
  have like_mac: "includes_js ?ua ''mac''" if "includes_js s ''like Mac OS X''"
  proof -
    from that have "includes_js ?ua ''like mac os x''"
      using includes_toLowerCase [of s "''like Mac OS X''"] by (simp add: lower_like_Mac)
    then show ?thesis
      using mac_in_like_mac by (rule includes_trans)
  qed
  from mac ios like_mac show ?thesis
    by simp
qed

theorem os_mac_checked_before_ios_witness:
  "includes_js (toLowerCase safari_on_iphone) ''iphone'' \<and>
   includes_js (toLowerCase safari_on_iphone) ''mac'' \<and>
   includes_js safari_on_iphone ''like Mac OS X'' \<and>
   \<not> includes_js (toLowerCase safari_on_iphone) ''windows'' \<and>
   os (parseUserAgent (Some safari_on_iphone)) = ''macOS'' \<and>
   os (parseUserAgent (Some safari_on_iphone)) \<noteq> ''iOS''"
proof -
  have h: "includes_js (toLowerCase safari_on_iphone) ''iphone'' \<and>
           includes_js (toLowerCase safari_on_iphone) ''mac'' \<and>
           includes_js safari_on_iphone ''like Mac OS X'' \<and>
           \<not> includes_js (toLowerCase safari_on_iphone) ''windows''"
    by code_simp
  with os_mac_checked_before_ios [of safari_on_iphone] show ?thesis
    by blast
qed

section \<open>Identity extraction: the order of the sources\<close>

text \<open>
  C8. The client address is taken in strict priority order: when the
  \<open>x-forwarded-for\<close> header is present and not empty, its first comma-separated entry,
  trimmed; otherwise the \<open>x-real-ip\<close> header when present; otherwise the
  \<open>cf-connecting-ip\<close> header when present; otherwise the socket address (\<open>req.ip\<close>,
  then the connection's remote address); and the literal \<open>Unknown\<close> when none of them
  yields a value.
\<close>

theorem getRealIP_priority:
  "getRealIP req =
     (if truthy (req_headers req ''x-forwarded-for'')
      then trim (takeWhile (\<lambda>c. c \<noteq> CHR '','') (the (req_headers req ''x-forwarded-for'')))
      else if truthy (req_headers req ''x-real-ip'') then the (req_headers req ''x-real-ip'')
      else if truthy (req_headers req ''cf-connecting-ip'')
        then the (req_headers req ''cf-connecting-ip'')
      else if truthy (req_ip req) then the (req_ip req)
      else if truthy (req_remoteAddress req) then the (req_remoteAddress req)
      else ''Unknown'')"
proof -
  have first: "hd (map trim (split_js c s)) = trim (takeWhile (\<lambda>x. x \<noteq> c) s)" for c s
    by (simp add: hd_map split_not_Nil hd_split)
  have last: "or_default (js_or a b) d =
                (if truthy a then the a else if truthy b then the b else d)" for a b d
    by (cases a; cases b) (simp_all add: or_default_def js_or_def truthy_def)
  show ?thesis
    by (simp add: getRealIP_def Let_def first last)
qed

section \<open>GeoResolver\<close>


lemma not_local_172_20: "\<not> is_local_ip ''172.20.0.1''"
  by code_simp

lemma lookup_url_172_20:
  "lookup_url ''172.20.0.1'' =
     ''http://ip-api.com/json/172.20.0.1?fields=status,message,country,city,regionName,lat,lon,timezone''"
  by code_simp

lemma getLocationFromIP_not_local:
  "\<not> is_local_ip addr \<Longrightarrow>
   getLocationFromIP net addr =
     (case lookup_try (net (lookup_url addr)) of
        None \<Rightarrow> None
      | Some (r, t) \<Rightarrow>
          Some (Inr (case r of Inr (Some l) \<Rightarrow> l | Inr None \<Rightarrow> unknown_location
                     | Inl e \<Rightarrow> unknown_location), t),
      [lookup_url addr])"
  by (simp add: getLocationFromIP_def split: option.splits sum.splits)

lemma fetched_not_local:
  "\<not> is_local_ip addr \<Longrightarrow> snd (getLocationFromIP net addr) = [lookup_url addr]"
  by (simp add: getLocationFromIP_not_local)


lemma lookup_try_timed_out: "timed_out r \<Longrightarrow> lookup_try r = Some (Inl AbortError, 5000)"
  by (simp add: lookup_try_def)

lemma getLocationFromIP_timed_out:
  "\<not> is_local_ip addr \<Longrightarrow> timed_out (net (lookup_url addr)) \<Longrightarrow>
   getLocationFromIP net addr = (Some (Inr unknown_location, 5000), [lookup_url addr])"
  by (simp add: getLocationFromIP_not_local lookup_try_timed_out)










text \<open>
  C3. The claim: every loopback address, every RFC 1918 private address (10.0.0.0/8,
  172.16.0.0 to 172.31.255.255, 192.168.0.0/16) and every IPv6 loopback form is
  answered with the \<open>Local\<close> triple and without an outbound call. The code tests
  the prefixes \<open>172.16\<close> and \<open>172.31\<close> only, so the private address \<open>172.20.0.1\<close> is
  not recognised: one request goes out for it whatever the network is, and when that
  request times out the answer is the \<open>Unknown\<close> triple.
\<close>

theorem private_172_20_is_looked_up:
  "snd (getLocationFromIP net ''172.20.0.1'') =
     [''http://ip-api.com/json/172.20.0.1?fields=status,message,country,city,regionName,lat,lon,timezone'']
   \<and> fst (getLocationFromIP (\<lambda>u. HeadersNever) ''172.20.0.1'') =
       Some (Inr unknown_location, 5000)"
proof
  show "snd (getLocationFromIP net ''172.20.0.1'') =
     [''http://ip-api.com/json/172.20.0.1?fields=status,message,country,city,regionName,lat,lon,timezone'']"
    using fetched_not_local [OF not_local_172_20] by (simp only: lookup_url_172_20)
  show "fst (getLocationFromIP (\<lambda>u. HeadersNever) ''172.20.0.1'') =
          Some (Inr unknown_location, 5000)"
    using getLocationFromIP_timed_out [OF not_local_172_20, of "\<lambda>u. HeadersNever"]
    by (simp add: timed_out_def)
qed




section \<open>RedirectPipeline: the branches of the handler\<close>

lemma get_code_expired:
  "select_ok e \<Longrightarrow> urls st (req_code req) = Some row \<Longrightarrow> expired e row \<Longrightarrow>
   get_code e st req =
     \<lparr>out_status = 410, out_body = Static expired_page,
      out_effects = [Select (req_code req)], out_db = st\<rparr>"
  by (simp add: get_code_def Let_def)

lemma get_code_bypass:
  "select_ok e \<Longrightarrow> urls st (req_code req) = Some row \<Longrightarrow> \<not> expired e row \<Longrightarrow>
   truthy (partner_domain row) \<Longrightarrow>
   \<not> isAllowed (the (partner_domain row)) (referrer_of req) \<Longrightarrow>
   get_code e st req =
     (let ev = \<lparr>bypass_code = req_code req, bypass_referrer = referrer_of req,
                bypass_ip_address = getRealIP req, bypass_user_agent = userAgent_of req\<rparr>
      in \<lparr>out_status = 403, out_body = Static bypass_page,
          out_effects = [Select (req_code req), InsertBypass ev],
          out_db = (if bypass_insert_ok e
                    then st\<lparr>bypass_logs := bypass_logs st @ [ev]\<rparr> else st)\<rparr>)"
  by (simp add: get_code_def Let_def or_default_Some_Nil)


lemma normalize_Direct: "normalize_js ''Direct'' = ''direct''"
  by code_simp

lemma normalize_Nil: "normalize_js [] = []"
  by code_simp

lemma includes_Nil: "includes_js s []"
  by (simp add: includes_js_def)

lemma referrer_of_absent:
  "\<not> truthy (req_headers req ''referer'') \<Longrightarrow> \<not> truthy (req_headers req ''referrer'') \<Longrightarrow>
   referrer_of req = ''Direct''"
  by (auto simp: referrer_of_def js_or_def or_default_def truthy_def split: option.splits)

lemma example_com_not_in_direct: "\<not> includes_js ''direct'' (normalize_js ''example.com'')"
  by code_simp

lemma includes_template:
  "l \<in> set ls \<Longrightarrow> includes_js l u \<Longrightarrow> includes_js (template ls) u"
proof (induction ls)
  case Nil
  then show ?case by simp
next
  case (Cons a ls)
  show ?case
  proof (cases "l = a")
    case True
    with Cons.prems(2) obtain p q where "a = p @ u @ q"
      by (auto simp: includes_iff)
    then have "template (a # ls) = (CHR 0x0A # p) @ u @ (q @ template ls)"
      by (simp add: template_def)
    then show ?thesis
      unfolding includes_iff by blast
  next
    case False
    with Cons have "includes_js (template ls) u"
      by simp
    then obtain p q where "template ls = p @ u @ q"
      by (auto simp: includes_iff)
    then have "template (a # ls) = (CHR 0x0A # a @ p) @ u @ q"
      by (simp add: template_def)
    then show ?thesis
      unfolding includes_iff by blast
  qed
qed

lemma credit_link_in_bypass_page: \<open>includes_js bypass_page ''https://t.me/RSCBots''\<close>
proof -
  have \<open>includes_js
          ''                      Developed by <a href="https://t.me/RSCBots" target="_blank" rel="noopener noreferrer">@RSCBots</a>''
          ''https://t.me/RSCBots''\<close>
    by code_simp
  then show ?thesis
    unfolding bypass_page_def by (rule includes_template [rotated]) simp
qed



text \<open>
  C4. For every resolved ShortLink whose \<open>expires_at\<close> is set and strictly before the
  current instant, the handler responds 410 whatever the referrer, the partner
  configuration and the rest of the request are; no statement other than the lookup is
  sent, so no ClickEvent, no BypassEvent and no counter increment is recorded, and the
  database is unchanged.
\<close>

theorem expired_link_gives_410:
  assumes "select_ok e"
    and "urls st (req_code req) = Some row"
    and "expires_at row = Some t"
    and "t < env_now e"
  shows "out_status (get_code e st req) = 410 \<and>
         out_body (get_code e st req) = Static expired_page \<and>
         out_effects (get_code e st req) = [Select (req_code req)] \<and>
         out_db (get_code e st req) = st"
proof -
  from assms(3,4) have "expired e row"
    by (simp add: expired_def)
  with assms(1,2) show ?thesis
    by (simp add: get_code_expired)
qed

theorem expired_link_gives_410_witness:
  "select_ok example_env \<and>
   urls (example_db expired_row) (req_code partner_request) = Some expired_row \<and>
   expires_at expired_row = Some 1600000000000 \<and>
   1600000000000 < env_now example_env \<and>
   out_status (get_code example_env (example_db expired_row) partner_request) = 410 \<and>
   out_db (get_code example_env (example_db expired_row) partner_request) = example_db expired_row"
proof -
  have h1: "select_ok example_env"
    by (simp add: example_env_def)
  have h2: "urls (example_db expired_row) (req_code partner_request) = Some expired_row"
    by (simp add: example_db_def partner_request_def)
  have h3: "expires_at expired_row = Some 1600000000000"
    by (simp add: expired_row_def)
  have h4: "1600000000000 < env_now example_env"
    by (simp add: example_env_def)
  from expired_link_gives_410 [OF h1 h2 h3 h4] h1 h2 h3 h4 show ?thesis
    by simp
qed

text \<open>
  C2, as the code has it. For every request whose resolved ShortLink is not expired and
  has a partner, whose \<open>referer\<close> and \<open>referrer\<close> headers are absent (or empty), and
  whose normalized partner domain is not a substring of \<open>direct\<close>: the handler responds
  403 with the static warning page, whose text is fixed, the same for every target
  URL, so that it contains the target URL only when that URL occurs in the fixed text;
  it attempts exactly one BypassEvent insert, carrying the referrer \<open>Direct\<close>, and
  responds 403 whether or not that insert succeeds; it creates no ClickEvent and
  increments no counter.
\<close>

theorem direct_visit_to_partner_link_is_denied:
  assumes sel: "select_ok e"
    and row: "urls st (req_code req) = Some row"
    and live: "\<not> expired e row"
    and partner: "partner_domain row = Some d"
    and no_referer: "\<not> truthy (req_headers req ''referer'')"
    and no_referrer: "\<not> truthy (req_headers req ''referrer'')"
    and foreign: "\<not> includes_js ''direct'' (normalize_js d)"
  shows "let ev = \<lparr>bypass_code = req_code req, bypass_referrer = ''Direct'',
                    bypass_ip_address = getRealIP req, bypass_user_agent = userAgent_of req\<rparr>;
             out = get_code e st req
         in out_status out = 403 \<and> out_body out = Static bypass_page \<and>
            out_effects out = [Select (req_code req), InsertBypass ev] \<and>
            bypass_logs (out_db out) =
              (if bypass_insert_ok e then bypass_logs st @ [ev] else bypass_logs st) \<and>
            click_rows (out_db out) = click_rows st \<and>
            urls (out_db out) = urls st"
proof -
  have ref: "referrer_of req = ''Direct''"
    using no_referer no_referrer by (rule referrer_of_absent)
  have "d \<noteq> []"
    using foreign by (auto simp: normalize_Nil includes_Nil)
  with partner have configured: "truthy (partner_domain row)"
    by (simp add: truthy_def)
  have "\<not> isAllowed d ''Direct''"
    using foreign by (simp add: isAllowed_includes normalize_Direct)
  with partner ref have denied: "\<not> isAllowed (the (partner_domain row)) (referrer_of req)"
    by simp
  show ?thesis
    using get_code_bypass [OF sel row live configured denied] ref
    by (simp add: Let_def)
qed

theorem direct_visit_to_partner_link_is_denied_witness:
  "select_ok example_env \<and>
   urls (example_db partner_row) (req_code direct_request) = Some partner_row \<and>
   \<not> expired example_env partner_row \<and>
   partner_domain partner_row = Some ''example.com'' \<and>
   \<not> truthy (req_headers direct_request ''referer'') \<and>
   \<not> truthy (req_headers direct_request ''referrer'') \<and>
   \<not> includes_js ''direct'' (normalize_js ''example.com'') \<and>
   out_status (get_code example_env (example_db partner_row) direct_request) = 403 \<and>
   out_body (get_code example_env (example_db partner_row) direct_request) =
     Static bypass_page \<and>
   click_rows (out_db (get_code example_env (example_db partner_row) direct_request)) = []"
proof -
  have h1: "select_ok example_env"
    by (simp add: example_env_def)
  have h2: "urls (example_db partner_row) (req_code direct_request) = Some partner_row"
    by (simp add: example_db_def direct_request_def)
  have h3: "\<not> expired example_env partner_row"
    by (simp add: expired_def partner_row_def)
  have h4: "partner_domain partner_row = Some ''example.com''"
    by (simp add: partner_row_def)
  have h5: "\<not> truthy (req_headers direct_request ''referer'')"
    by (simp add: direct_request_def truthy_def)
  have h6: "\<not> truthy (req_headers direct_request ''referrer'')"
    by (simp add: direct_request_def truthy_def)
  note h7 = example_com_not_in_direct
  have h8: "click_rows (example_db partner_row) = []"
    by (simp add: example_db_def)
  from direct_visit_to_partner_link_is_denied [OF h1 h2 h3 h4 h5 h6 h7] h1 h2 h3 h4 h5 h6 h7 h8
  show ?thesis
    by (simp add: Let_def)
qed

text \<open>
  Where the statement of C2 in the specification fails. An expired link with partner
  \<open>example.com\<close>, requested without referrer headers, is answered 410 and no
  BypassEvent insert is attempted. A link that is not expired, with the same partner
  and the target \<open>https://t.me/RSCBots\<close>, requested without referrer headers, is
  answered 403 with the warning page, and the page contains that target: it is the
  address of the page's credit link.
\<close>

theorem bypass_claim_counterexamples:
  "select_ok example_env \<and>
   urls (example_db expired_row) (req_code direct_request) = Some expired_row \<and>
   partner_domain expired_row = Some ''example.com'' \<and>
   req_headers direct_request ''referer'' = None \<and>
   req_headers direct_request ''referrer'' = None \<and>
   \<not> includes_js ''direct'' (normalize_js ''example.com'') \<and>
   out_status (get_code example_env (example_db expired_row) direct_request) = 410 \<and>
   out_effects (get_code example_env (example_db expired_row) direct_request) =
     [Select ''promo''] \<and>
   urls (example_db credit_link_row) (req_code direct_request) = Some credit_link_row \<and>
   \<not> expired example_env credit_link_row \<and>
   partner_domain credit_link_row = Some ''example.com'' \<and>
   url credit_link_row = ''https://t.me/RSCBots'' \<and>
   out_status (get_code example_env (example_db credit_link_row) direct_request) = 403 \<and>
   out_body (get_code example_env (example_db credit_link_row) direct_request) =
     Static bypass_page \<and>
   includes_js bypass_page (url credit_link_row)"
proof -
  have h1: "select_ok example_env"
    by (simp add: example_env_def)
  have h2: "urls (example_db expired_row) (req_code direct_request) = Some expired_row"
    "urls (example_db credit_link_row) (req_code direct_request) = Some credit_link_row"
    by (simp_all add: example_db_def direct_request_def)
  have h3: "expired example_env expired_row" "\<not> expired example_env credit_link_row"
    by (simp_all add: expired_def example_env_def expired_row_def credit_link_row_def)
  note h4 = example_com_not_in_direct
  have h5: "req_headers direct_request ''referer'' = None"
    "req_headers direct_request ''referrer'' = None"
    by (simp_all add: direct_request_def)
  have h6: "partner_domain expired_row = Some ''example.com''"
    "partner_domain credit_link_row = Some ''example.com''"
    "url credit_link_row = ''https://t.me/RSCBots''"
    by (simp_all add: expired_row_def credit_link_row_def)
  have h7: "req_code direct_request = ''promo''"
    by (simp add: direct_request_def)
  have ref: "referrer_of direct_request = ''Direct''"
    using h5 by (simp add: referrer_of_absent truthy_def)
  have denied: "\<not> isAllowed (the (partner_domain credit_link_row)) (referrer_of direct_request)"
    using h4 by (simp add: h6 ref isAllowed_includes normalize_Direct)
  have configured: "truthy (partner_domain credit_link_row)"
    by (simp add: h6 truthy_def)
  have a: "out_status (get_code example_env (example_db expired_row) direct_request) = 410"
    "out_effects (get_code example_env (example_db expired_row) direct_request) =
       [Select ''promo'']"
    by (simp_all add: get_code_expired [OF h1 h2(1) h3(1)] h7)
  have b: "out_status (get_code example_env (example_db credit_link_row) direct_request) = 403"
    "out_body (get_code example_env (example_db credit_link_row) direct_request) =
       Static bypass_page"
    by (simp_all add: get_code_bypass [OF h1 h2(2) h3(2) configured denied] Let_def)
  have c: "includes_js bypass_page (url credit_link_row)"
    using credit_link_in_bypass_page by (simp add: h6)
  from h1 h2 h3 h4 h5 h6 a b c show ?thesis
    by simp
qed



end
